theory Spec2Isabelle
  imports Complex_Main
begin

section \<open>Enumerations of the data model (types/database.ts)\<close>

datatype DepartmentType =
    ICU | NICU | PICU | CCU | GENERAL_SURGERY | ORTHOPEDIC | CARDIAC_SURGERY
  | NEUROSURGERY | OBSTETRICS_GYNECOLOGY | PEDIATRICS | INTERNAL_MEDICINE
  | EMERGENCY | DIALYSIS | ONCOLOGY | BURNS_UNIT | LABORATORY | RADIOLOGY
  | PHARMACY | DEPT_IPC_COMMITTEE

datatype UserRole =
    ADMIN | IPC_FOCAL | IPC_OFFICER | IPC_COMMITTEE | DEPARTMENT_HEAD
  | CONSULTANT | MEDICAL_OFFICER | STAFF_NURSE | CHARGE_NURSE
  | INFECTION_CONTROL_NURSE | LABORATORY_TECHNICIAN | VIEWER

datatype FormType =
    CAUTI | CLABSI | CLABSI_BUNDLE | SSI | VAP | HAP | MDRO | C_DIFF
  | MRSA | VRE | ESBL

datatype ReviewStatus = pending | approved | rejected | requires_revision

text \<open>
  The enum member \<^verbatim>\<open>DepartmentType.IPC_COMMITTEE\<close> is written
  \<open>DEPT_IPC_COMMITTEE\<close>, since \<^verbatim>\<open>UserRole.IPC_COMMITTEE\<close> has the same
  name in a different enum.

  A field declared \<^verbatim>\<open>T | null\<close> is a \<open>T option\<close> with \<open>None\<close> for
  \<^verbatim>\<open>null\<close>.
\<close>

record UserProfile =
  id' :: string
  user_id :: "string option"
  email :: string
  full_name :: string
  employee_id :: "string option"
  phone :: "string option"
  department :: DepartmentType
  role :: UserRole
  is_active :: "bool option"
  avatar_url :: "string option"
  created_at :: string
  updated_at :: string

text \<open>
  The identity record of the authentication service. The application reads its
  \<^verbatim>\<open>id\<close> and \<^verbatim>\<open>email\<close> only.
\<close>

record User =
  uid :: string
  uemail :: "string option"

section \<open>Permission resolver (components/auth/AuthProvider.tsx)\<close>

text \<open>
  \<^verbatim>\<open>ROLE_FORM_PERMISSIONS: Record<UserRole, FormType[]>\<close> and
  \<^verbatim>\<open>DEPARTMENT_FORM_PERMISSIONS: Record<DepartmentType, FormType[]>\<close> have an
  entry for every member of their key enum, so each is a total function into lists, one
  equation per entry, in the order of the source.
\<close>

fun ROLE_FORM_PERMISSIONS :: "UserRole \<Rightarrow> FormType list" where
  "ROLE_FORM_PERMISSIONS ADMIN = [CAUTI, CLABSI, SSI, VAP, HAP, MDRO, C_DIFF, MRSA, VRE, ESBL]"
| "ROLE_FORM_PERMISSIONS IPC_FOCAL = [CAUTI, CLABSI, SSI, VAP, HAP, MDRO, C_DIFF, MRSA, VRE, ESBL]"
| "ROLE_FORM_PERMISSIONS IPC_OFFICER = [CAUTI, CLABSI, SSI, VAP, HAP, MDRO, C_DIFF, MRSA, VRE, ESBL]"
| "ROLE_FORM_PERMISSIONS IPC_COMMITTEE = [CAUTI, CLABSI, SSI, VAP, HAP, MDRO, C_DIFF, MRSA, VRE, ESBL]"
| "ROLE_FORM_PERMISSIONS DEPARTMENT_HEAD = [CAUTI, CLABSI, SSI, VAP, HAP, MDRO]"
| "ROLE_FORM_PERMISSIONS CONSULTANT = [CAUTI, CLABSI, SSI, VAP, HAP, MDRO]"
| "ROLE_FORM_PERMISSIONS MEDICAL_OFFICER = [CAUTI, CLABSI, SSI, MDRO]"
| "ROLE_FORM_PERMISSIONS STAFF_NURSE = [CAUTI, CLABSI, VAP]"
| "ROLE_FORM_PERMISSIONS CHARGE_NURSE = [CAUTI, CLABSI, VAP, SSI]"
| "ROLE_FORM_PERMISSIONS INFECTION_CONTROL_NURSE = [CAUTI, CLABSI, SSI, VAP, HAP, MDRO]"
| "ROLE_FORM_PERMISSIONS LABORATORY_TECHNICIAN = [MDRO, C_DIFF, MRSA, VRE, ESBL]"
| "ROLE_FORM_PERMISSIONS VIEWER = []"

fun DEPARTMENT_FORM_PERMISSIONS :: "DepartmentType \<Rightarrow> FormType list" where
  "DEPARTMENT_FORM_PERMISSIONS ICU = [CAUTI, CLABSI, VAP, HAP, MDRO]"
| "DEPARTMENT_FORM_PERMISSIONS NICU = [CLABSI, VAP, MDRO]"
| "DEPARTMENT_FORM_PERMISSIONS PICU = [CAUTI, CLABSI, VAP, MDRO]"
| "DEPARTMENT_FORM_PERMISSIONS CCU = [CAUTI, CLABSI, VAP, MDRO]"
| "DEPARTMENT_FORM_PERMISSIONS GENERAL_SURGERY = [SSI, CAUTI, MDRO]"
| "DEPARTMENT_FORM_PERMISSIONS ORTHOPEDIC = [SSI, CAUTI, MDRO]"
| "DEPARTMENT_FORM_PERMISSIONS CARDIAC_SURGERY = [SSI, CAUTI, CLABSI, MDRO]"
| "DEPARTMENT_FORM_PERMISSIONS NEUROSURGERY = [SSI, CAUTI, MDRO]"
| "DEPARTMENT_FORM_PERMISSIONS OBSTETRICS_GYNECOLOGY = [SSI, CAUTI, MDRO]"
| "DEPARTMENT_FORM_PERMISSIONS PEDIATRICS = [CAUTI, MDRO]"
| "DEPARTMENT_FORM_PERMISSIONS INTERNAL_MEDICINE = [CAUTI, MDRO]"
| "DEPARTMENT_FORM_PERMISSIONS EMERGENCY = [CAUTI, MDRO]"
| "DEPARTMENT_FORM_PERMISSIONS DIALYSIS = [CLABSI, MDRO]"
| "DEPARTMENT_FORM_PERMISSIONS ONCOLOGY = [CAUTI, CLABSI, MDRO]"
| "DEPARTMENT_FORM_PERMISSIONS BURNS_UNIT = [SSI, CAUTI, MDRO]"
| "DEPARTMENT_FORM_PERMISSIONS LABORATORY = [MDRO, C_DIFF, MRSA, VRE, ESBL]"
| "DEPARTMENT_FORM_PERMISSIONS RADIOLOGY = [MDRO]"
| "DEPARTMENT_FORM_PERMISSIONS PHARMACY = [MDRO]"
| "DEPARTMENT_FORM_PERMISSIONS DEPT_IPC_COMMITTEE = [CAUTI, CLABSI, SSI, VAP, HAP, MDRO, C_DIFF, MRSA, VRE, ESBL]"

text \<open>\<^verbatim>\<open>Array.prototype.includes\<close> on a list of enum members.\<close>

definition array_includes :: "'a list \<Rightarrow> 'a \<Rightarrow> bool" where
  "array_includes xs x = (x \<in> set xs)"

text \<open>
  The functions below are closures of the provider over its state variable
  \<^verbatim>\<open>profile: UserProfile | null\<close>, which is their first argument here.
  \<^verbatim>\<open>hasRole\<close> is \<^verbatim>\<open>profile?.role === role\<close>: with no profile the left side
  is \<^verbatim>\<open>undefined\<close>, which equals no role.
\<close>

definition hasRole :: "UserProfile option \<Rightarrow> UserRole \<Rightarrow> bool" where
  "hasRole profile r = (case profile of None \<Rightarrow> False | Some p \<Rightarrow> role p = r)"

text \<open>
  In \<^verbatim>\<open>ROLE_FORM_PERMISSIONS[profile.role] || []\<close> the table has every role and an
  array is truthy even when empty, so the fallback \<^verbatim>\<open>[]\<close> is never taken; the same
  holds for the department table.
\<close>

definition canAccessForm :: "UserProfile option \<Rightarrow> FormType \<Rightarrow> bool" where
  "canAccessForm profile formType =
     (case profile of
        None \<Rightarrow> False
      | Some p \<Rightarrow>
          if hasRole profile ADMIN \<or> hasRole profile IPC_FOCAL \<or> hasRole profile IPC_OFFICER
          then True
          else
            (let rolePermissions = ROLE_FORM_PERMISSIONS (role p);
                 hasRolePermission = array_includes rolePermissions formType;
                 departmentPermissions = DEPARTMENT_FORM_PERMISSIONS (department p);
                 hasDepartmentPermission = array_includes departmentPermissions formType
             in hasRolePermission \<and> hasDepartmentPermission))"

text \<open>
  The state variables of the provider (\<^verbatim>\<open>useState\<close>): the signed-in identity, its
  profile row, the loading flag and the error banner.
\<close>

record AuthState =
  user :: "User option"
  profile :: "UserProfile option"
  loading :: bool
  error :: "string option"
  initialized :: bool

text \<open>
  What a callback of the provider does to the outside, in the order of execution: calls
  of the state setters, the remote sign-out call, a navigation of the router and a line
  on the console.
\<close>

datatype AuthEffect =
    SetLoading bool
  | SetUser "User option"
  | SetProfile "UserProfile option"
  | SetError "string option"
  | SupabaseAuthSignOut
  | RouterPush string
  | ConsoleError string

fun apply_effect :: "AuthEffect \<Rightarrow> AuthState \<Rightarrow> AuthState" where
  "apply_effect (SetLoading b) s = s\<lparr>loading := b\<rparr>"
| "apply_effect (SetUser u) s = s\<lparr>user := u\<rparr>"
| "apply_effect (SetProfile p) s = s\<lparr>profile := p\<rparr>"
| "apply_effect (SetError e) s = s\<lparr>error := e\<rparr>"
| "apply_effect SupabaseAuthSignOut s = s"
| "apply_effect (RouterPush path) s = s"
| "apply_effect (ConsoleError msg) s = s"

definition run_effects :: "AuthEffect list \<Rightarrow> AuthState \<Rightarrow> AuthState" where
  "run_effects es s = fold apply_effect es s"

text \<open>
  The navigations among a callback's effects, each with the provider state that the
  setters called before it have produced.
\<close>

fun redirects :: "AuthEffect list \<Rightarrow> AuthState \<Rightarrow> (string \<times> AuthState) list" where
  "redirects [] s = []"
| "redirects (RouterPush path # es) s = (path, s) # redirects es s"
| "redirects (e # es) s = redirects es (apply_effect e s)"

text \<open>
  How \<^verbatim>\<open>await supabase.auth.signOut()\<close> ends: it resolves to an object whose
  \<^verbatim>\<open>error\<close> is null or a failure (which \<^verbatim>\<open>signOut\<close> does not read), or it
  throws.
\<close>

datatype SignOutResult = Resolved "string option" | Thrown

text \<open>
  \<^verbatim>\<open>signOut\<close>: the \<^verbatim>\<open>try\<close> block up to the remote call, then the rest of the
  \<^verbatim>\<open>try\<close> block or the \<^verbatim>\<open>catch\<close> block, then the \<^verbatim>\<open>finally\<close> block.
\<close>

definition signOut :: "SignOutResult \<Rightarrow> AuthEffect list" where
  "signOut remote =
     [SetLoading True, SetUser None, SetProfile None, SetError None, SupabaseAuthSignOut]
     @ (case remote of
          Resolved err \<Rightarrow> [RouterPush ''/login'']
        | Thrown \<Rightarrow> [ConsoleError ''Sign out error:'', RouterPush ''/login''])
     @ [SetLoading False]"

text \<open>
  A call of \<^verbatim>\<open>canAccessForm\<close> through the context: the value it returns in the
  provider state \<open>s\<close> and the effects it has. Its body (and that of \<^verbatim>\<open>hasRole\<close>)
  reads \<^verbatim>\<open>profile\<close> and two constant tables, and calls no setter, no remote
  operation and no router.
\<close>

definition canAccessForm_call :: "FormType \<Rightarrow> AuthState \<Rightarrow> bool \<times> AuthEffect list" where
  "canAccessForm_call formType s = (canAccessForm (profile s) formType, [])"

section \<open>JavaScript values and numbers\<close>

text \<open>
  A JavaScript number is \<open>NaN\<close> or a finite value, kept as the exact rational it
  stands for. The two infinities are left out: no computation below produces one from
  finite arguments.
\<close>

datatype number = NaN | Finite rat

datatype JsValue = JUndefined | JNull | JBoolean bool | JNumber number | JString string

fun num_minus :: "number \<Rightarrow> number \<Rightarrow> number" where
  "num_minus (Finite a) (Finite b) = Finite (a - b)"
| "num_minus _ _ = NaN"

fun num_plus :: "number \<Rightarrow> number \<Rightarrow> number" where
  "num_plus (Finite a) (Finite b) = Finite (a + b)"
| "num_plus _ _ = NaN"

text \<open>Division by a non-zero constant; the only divisor below is the length of a day.\<close>

fun num_div :: "number \<Rightarrow> rat \<Rightarrow> number" where
  "num_div (Finite a) d = Finite (a / d)"
| "num_div NaN d = NaN"

fun Math_abs :: "number \<Rightarrow> number" where
  "Math_abs (Finite a) = Finite \<bar>a\<bar>"
| "Math_abs NaN = NaN"

fun Math_ceil :: "number \<Rightarrow> number" where
  "Math_ceil (Finite a) = Finite (of_int \<lceil>a\<rceil>)"
| "Math_ceil NaN = NaN"

text \<open>\<^verbatim>\<open>Math.round\<close> on a finite number: the nearest integer, a tie going up.\<close>

definition Math_round :: "rat \<Rightarrow> int" where
  "Math_round x = \<lfloor>x + 1 / 2\<rfloor>"

text \<open>The strict equality \<^verbatim>\<open>v === true\<close>.\<close>

definition strict_eq_true :: "JsValue \<Rightarrow> bool" where
  "strict_eq_true v = (v = JBoolean True)"

text \<open>\<^verbatim>\<open>Array.prototype.some\<close>.\<close>

definition array_some :: "('a \<Rightarrow> bool) \<Rightarrow> 'a list \<Rightarrow> bool" where
  "array_some f xs = list_ex f xs"

section \<open>CAUTI surveillance form (components/forms/CautiForm.tsx)\<close>

text \<open>
  A field declared optional and nullable (\<^verbatim>\<open>f?: T | null\<close>) has three states.
\<close>

datatype 'a optional = Undefined | Null | Val 'a

record CautiSymptoms =
  fever :: bool
  rigors :: bool
  hypotension :: bool
  confusion_with_leukocytosis :: bool
  costovertebral_pain :: bool
  suprapubic_tenderness :: bool
  testes_epididymis_prostate_pain :: bool
  purulent_discharge :: bool

text \<open>The four optional text properties are \<open>None\<close> when the object lacks them.\<close>

record CautiLaboratoryFindings =
  clean_catch_voided :: bool
  straight_catheter_specimen :: bool
  iuc_specimen :: bool
  culture_result :: "string option"
  organism_identified :: "string option"
  cfu_count :: "string option"
  antibiotic_sensitivity :: "string option"

datatype Gender = Male | Female

text \<open>
  The form state, of the declared type \<^verbatim>\<open>CautiSurveillanceInsert\<close>. The field
  \<^verbatim>\<open>age\<close> is a \<open>JsValue\<close>: it is declared \<^verbatim>\<open>number | null\<close> and starts
  as 0, and \<^verbatim>\<open>handleChange\<close> stores the text of the input element in it.
  The properties \<^verbatim>\<open>id\<close> and \<^verbatim>\<open>notes\<close> are the fields \<open>id'\<close> and
  \<open>notes'\<close>.
\<close>

record CautiSurveillanceInsert =
  id' :: "string option"
  form_number :: "string option"
  patient_id :: "string optional"
  patient_name :: string
  hospital_id :: string
  age :: JsValue
  gender :: "Gender optional"
  ward_bed_number :: string
  department :: DepartmentType
  catheter_insertion_date :: string
  catheter_removal_date :: "string optional"
  reason_for_catheter :: string
  catheter_type :: "string optional"
  surveillance_date :: string
  event_date :: "string optional"
  symptoms :: "CautiSymptoms option"
  laboratory_findings :: "CautiLaboratoryFindings option"
  meets_cauti_criteria :: "bool optional"
  infection_preventable :: "bool optional"
  contributing_factors :: "string optional"
  notes' :: "string optional"
  submitted_by :: "string optional"
  reviewed_by :: "string optional"
  review_status :: "ReviewStatus option"
  review_notes :: "string optional"
  is_active :: "bool optional"

text \<open>
  \<^verbatim>\<open>Object.values(formData.symptoms || {})\<close> and
  \<^verbatim>\<open>Object.values(formData.laboratory_findings || {})\<close>: the values of the own
  properties, in the order of the object; none for a missing object.
\<close>

definition symptoms_values :: "CautiSymptoms option \<Rightarrow> JsValue list" where
  "symptoms_values so =
     (case so of
        None \<Rightarrow> []
      | Some s \<Rightarrow>
          map JBoolean
            [fever s, rigors s, hypotension s, confusion_with_leukocytosis s,
             costovertebral_pain s, suprapubic_tenderness s,
             testes_epididymis_prostate_pain s, purulent_discharge s])"

definition optional_text :: "string option \<Rightarrow> JsValue list" where
  "optional_text t = (case t of None \<Rightarrow> [] | Some x \<Rightarrow> [JString x])"

definition laboratory_findings_values :: "CautiLaboratoryFindings option \<Rightarrow> JsValue list" where
  "laboratory_findings_values lo =
     (case lo of
        None \<Rightarrow> []
      | Some l \<Rightarrow>
          map JBoolean [clean_catch_voided l, straight_catheter_specimen l, iuc_specimen l]
          @ optional_text (culture_result l) @ optional_text (organism_identified l)
          @ optional_text (cfu_count l) @ optional_text (antibiotic_sensitivity l))"

text \<open>
  \<^verbatim>\<open>validateForm\<close>: \<open>Inl msg\<close> is \<^verbatim>\<open>setError(msg); return false\<close>, and
  \<open>Inr ()\<close> is \<^verbatim>\<open>return true\<close>. A string is falsy exactly when it is empty.
\<close>

definition validateForm :: "CautiSurveillanceInsert \<Rightarrow> string + unit" where
  "validateForm formData =
     (if patient_name formData = [] \<or> hospital_id formData = []
         \<or> ward_bed_number formData = [] \<or> catheter_insertion_date formData = []
      then Inl ''Please fill in all required patient and catheter information.''
      else if \<not> array_some strict_eq_true (symptoms_values (symptoms formData))
      then Inl ''Please select at least one sign or symptom.''
      else if \<not> array_some strict_eq_true
                 (laboratory_findings_values (laboratory_findings formData))
      then Inl ''Please select at least one laboratory finding.''
      else Inr ())"

text \<open>
  What a submission comes to: refused before any remote call with the error shown, or
  the row passed to \<^verbatim>\<open>supabase.from('cauti_surveillance').insert([payload])\<close>
  together with the banner that follows the answer of the insertion.
\<close>

datatype CautiOutcome =
    CautiRejected string
  | CautiInserted CautiSurveillanceInsert
  | CautiInsertFailed CautiSurveillanceInsert string

text \<open>
  \<^verbatim>\<open>handleSubmit\<close> of the CAUTI form. \<open>remote_insert\<close> is the remote insertion: \<open>None\<close>
  when it succeeds, the message of \<^verbatim>\<open>insertError\<close> when it fails
  (\<^verbatim>\<open>err.message || 'An unexpected error occurred.'\<close> replaces an empty message).
\<close>

definition CautiForm_handleSubmit ::
  "(CautiSurveillanceInsert \<Rightarrow> string option) \<Rightarrow> User option \<Rightarrow> UserProfile option
     \<Rightarrow> CautiSurveillanceInsert \<Rightarrow> CautiOutcome" where
  "CautiForm_handleSubmit remote_insert usr prof formData =
     (case (prof, usr) of
        (Some p, Some u) \<Rightarrow>
          (case validateForm formData of
             Inl msg \<Rightarrow> CautiRejected msg
           | Inr _ \<Rightarrow>
               (let payload = formData\<lparr>submitted_by := Val (UserProfile.id' p),
                                       department := UserProfile.department p\<rparr>
                in case remote_insert payload of
                     None \<Rightarrow> CautiInserted payload
                   | Some message \<Rightarrow>
                       CautiInsertFailed payload
                         (if message = [] then ''An unexpected error occurred.'' else message)))
      | _ \<Rightarrow> CautiRejected
          ''Your user profile is not loaded. Please refresh or contact an administrator.'')"

text \<open>The row that a submission passes to the remote insertion, if it reaches it.\<close>

fun inserted_payload :: "CautiOutcome \<Rightarrow> CautiSurveillanceInsert option" where
  "inserted_payload (CautiRejected msg) = None"
| "inserted_payload (CautiInserted payload) = Some payload"
| "inserted_payload (CautiInsertFailed payload msg) = Some payload"

section \<open>CLABSI bundle tracker (components/forms/ClabsiBundleForm.tsx, types/clabsi.ts)\<close>

datatype ShiftType = M | A | N

datatype DischargeType = discharged | deceased | transferred

text \<open>
  The form state. A field of type \<^verbatim>\<open>ShiftType | ''\<close> or \<^verbatim>\<open>DischargeType | ''\<close>
  is an option, \<open>None\<close> for the empty string.
\<close>

record ClabsiFormData =
  patientId :: string
  admissionDate :: string
  admissionShift :: "ShiftType option"
  dischargeDate :: string
  dischargeShift :: "ShiftType option"
  dischargeType :: "DischargeType option"
  entryDate :: string
  shift :: "ShiftType option"
  skinPrep2CHG :: bool
  dressingChangeDaily :: bool
  patencyLumens :: bool
  hubCareAlcohol :: bool
  ivTubingChangeDaily :: bool

text \<open>A saved row (\<^verbatim>\<open>ClabsiEntry\<close>), as loaded from the remote table.\<close>

record ClabsiEntry =
  id' :: string
  patient_id :: string
  admission_date :: string
  admission_shift :: ShiftType
  discharge_date :: "string option"
  discharge_shift :: "ShiftType option"
  discharge_type :: "DischargeType option"
  entry_date :: string
  shift :: ShiftType
  day_number :: number
  skin_prep_2chg :: bool
  dressing_change_daily :: bool
  patency_lumens :: bool
  hub_care_alcohol :: bool
  iv_tubing_change_daily :: bool
  compliance_score :: number
  created_by :: string
  department :: DepartmentType
  nurse_name :: string
  created_at :: string
  updated_at :: string

text \<open>The row to insert (\<^verbatim>\<open>ClabsiEntryInsert\<close>).\<close>

record ClabsiEntryInsert =
  patient_id :: string
  admission_date :: string
  admission_shift :: ShiftType
  discharge_date :: "string option"
  discharge_shift :: "ShiftType option"
  discharge_type :: "DischargeType option"
  entry_date :: string
  shift :: ShiftType
  day_number :: number
  skin_prep_2chg :: bool
  dressing_change_daily :: bool
  patency_lumens :: bool
  hub_care_alcohol :: bool
  iv_tubing_change_daily :: bool
  compliance_score :: number
  created_by :: string
  department :: DepartmentType
  nurse_name :: string

text \<open>
  \<^verbatim>\<open>calculateDayNumber\<close>. Its first argument \<open>getTime\<close> stands for
  \<^verbatim>\<open>new Date(s).getTime()\<close> of the host: the time value of the date that the text
  \<open>s\<close> denotes, in milliseconds, or \<open>NaN\<close> when \<open>s\<close> denotes no date.

  The source subtracts and divides doubles where the model subtracts and divides
  rationals. A time value is an integer of magnitude at most 8640000000000000. The
  result of the source is the result of the model
  \<^item> when the two time values are at most \<open>2 ^ 53\<close> milliseconds apart: the difference
    is then exact, the quotient is below \<open>2 ^ 27\<close> and is rounded once, and a quotient
    that is no integer keeps a distance of at least \<open>1 / 86400000\<close> from the integers,
    which is more than half the distance between neighbouring doubles there;
  \<^item> when the two time values are a whole number of days apart, as the time values of
    two date-only texts are: difference and quotient are then exact.
  Outside these two cases the results can differ by one: at the time values
  -864000000000001 and 8640000000000000 the source yields 110000001 and the model
  110000002. The properties of the day number below are stated for the two cases.
\<close>

definition calculateDayNumber :: "(string \<Rightarrow> number) \<Rightarrow> ClabsiFormData \<Rightarrow> number" where
  "calculateDayNumber getTime formData =
     (if admissionDate formData = [] \<or> entryDate formData = [] then Finite 1
      else
        (let admission = getTime (admissionDate formData);
             current = getTime (entryDate formData)
         in num_plus
              (Math_ceil
                 (num_div (Math_abs (num_minus current admission)) (1000 * 60 * 60 * 24)))
              (Finite 1)))"

text \<open>
  \<^verbatim>\<open>getEnteredShifts\<close>: the shifts of the saved rows of this patient and this entry
  date.
\<close>

definition getEnteredShifts :: "ClabsiEntry list \<Rightarrow> ClabsiFormData \<Rightarrow> ShiftType list" where
  "getEnteredShifts savedEntries formData =
     map ClabsiEntry.shift
       (filter (\<lambda>e. ClabsiEntry.patient_id e = patientId formData
                   \<and> ClabsiEntry.entry_date e = entryDate formData)
          savedEntries)"

text \<open>
  The two effects that keep the form in step with the saved rows. The first builds
  \<^verbatim>\<open>existingPatients\<close>, which holds for each patient the admission and discharge
  data of the first saved row of that patient; the second looks the patient of the form
  up in it (\<open>existingPatient\<close>) and, when it is there, writes these data into the form.
  \<^verbatim>\<open>entry.discharge_date || undefined\<close> followed by
  \<^verbatim>\<open>existingPatient.dischargeDate || ''\<close> is the empty text for a missing date.
\<close>

definition existingPatient :: "ClabsiEntry list \<Rightarrow> ClabsiFormData \<Rightarrow> ClabsiEntry option" where
  "existingPatient savedEntries formData =
     find (\<lambda>e. ClabsiEntry.patient_id e = patientId formData) savedEntries"

definition select_existing_patient :: "ClabsiEntry list \<Rightarrow> ClabsiFormData \<Rightarrow> ClabsiFormData" where
  "select_existing_patient savedEntries formData =
     (if patientId formData = [] then formData
      else
        (case existingPatient savedEntries formData of
           None \<Rightarrow> formData
         | Some e \<Rightarrow>
             formData\<lparr>admissionDate := ClabsiEntry.admission_date e,
                      admissionShift := Some (ClabsiEntry.admission_shift e),
                      dischargeDate :=
                        (case ClabsiEntry.discharge_date e of None \<Rightarrow> [] | Some d \<Rightarrow> d),
                      dischargeShift := ClabsiEntry.discharge_shift e,
                      dischargeType := ClabsiEntry.discharge_type e\<rparr>))"

text \<open>
  \<^verbatim>\<open>calculateCompliance\<close>. \<^verbatim>\<open>calculateDayNumber() === 1\<close> is false for \<open>NaN\<close>.
  The counter \<open>completed\<close> is incremented once for each condition that holds.

  The source computes \<^verbatim>\<open>(completed / total) * 100\<close> in doubles. For the eleven pairs
  that occur (0 to 5 of 5, 0 to 4 of 4) the double result is the exact value: 0, 20, 40,
  60, 80, 100 and 0, 25, 50, 75, 100.
\<close>

definition incr_if :: "bool \<Rightarrow> rat \<Rightarrow> rat" where
  "incr_if b completed = (if b then completed + 1 else completed)"

definition calculateCompliance :: "(string \<Rightarrow> number) \<Rightarrow> ClabsiFormData \<Rightarrow> int" where
  "calculateCompliance getTime formData =
     (let dayOne = (calculateDayNumber getTime formData = Finite 1);
          total = (if dayOne then 5 else 4 :: rat);
          completed =
            incr_if (ivTubingChangeDaily formData)
              (incr_if (hubCareAlcohol formData)
                 (incr_if (patencyLumens formData)
                    (incr_if (dressingChangeDaily formData)
                       (incr_if (dayOne \<and> skinPrep2CHG formData) 0))))
      in if total > 0 then Math_round ((completed / total) * 100) else 0)"

text \<open>
  What a submission of a bundle entry comes to: an error message shown and a return
  before any remote call; a \<^verbatim>\<open>TypeError\<close> at \<^verbatim>\<open>user!.id\<close> or
  \<^verbatim>\<open>profile!.department\<close> when there is no user or no profile, also before the
  remote call; or the call \<^verbatim>\<open>supabase.from('clabsi_bundle_entries').insert([entryData])\<close>.
  What follows the answer of the insertion (the message, the reset of the form, the
  reload of the saved rows) is not part of the outcome.
\<close>

datatype BundleOutcome =
    ShowError string
  | TypeError
  | RemoteInsert ClabsiEntryInsert

fun shift_text :: "ShiftType \<Rightarrow> string" where
  "shift_text M = ''M''"
| "shift_text A = ''A''"
| "shift_text N = ''N''"

text \<open>
  \<^verbatim>\<open>handleSubmit\<close> of the bundle form. The first test of the source,
  \<^verbatim>\<open>!patientId || !entryDate || !shift || !admissionDate || !admissionShift\<close>, is
  the case distinction on the two shift fields (empty is \<open>None\<close>) together with the
  test of the three texts. \<^verbatim>\<open>formData.dischargeDate || null\<close> is null for the
  empty string.
\<close>

definition ClabsiBundleForm_handleSubmit ::
  "(string \<Rightarrow> number) \<Rightarrow> User option \<Rightarrow> UserProfile option \<Rightarrow> string
     \<Rightarrow> ClabsiEntry list \<Rightarrow> ClabsiFormData \<Rightarrow> BundleOutcome" where
  "ClabsiBundleForm_handleSubmit getTime usr prof userName savedEntries formData =
     (case (ClabsiFormData.shift formData, admissionShift formData) of
        (Some sh, Some adm_sh) \<Rightarrow>
          if patientId formData = [] \<or> entryDate formData = [] \<or> admissionDate formData = []
          then ShowError ''Please fill all required fields.''
          else if array_includes (getEnteredShifts savedEntries formData) sh
          then ShowError (''Entry for '' @ shift_text sh @ '' shift on this date already exists.'')
          else
            (case (usr, prof) of
               (Some u, Some p) \<Rightarrow>
                 RemoteInsert
                   \<lparr>patient_id = patientId formData,
                    admission_date = admissionDate formData,
                    admission_shift = adm_sh,
                    discharge_date =
                      (if dischargeDate formData = [] then None
                       else Some (dischargeDate formData)),
                    discharge_shift = dischargeShift formData,
                    discharge_type = dischargeType formData,
                    entry_date = entryDate formData,
                    shift = sh,
                    day_number = calculateDayNumber getTime formData,
                    skin_prep_2chg = skinPrep2CHG formData,
                    dressing_change_daily = dressingChangeDaily formData,
                    patency_lumens = patencyLumens formData,
                    hub_care_alcohol = hubCareAlcohol formData,
                    iv_tubing_change_daily = ivTubingChangeDaily formData,
                    compliance_score =
                      Finite (of_int (calculateCompliance getTime formData)),
                    created_by = uid u,
                    department = UserProfile.department p,
                    nurse_name = userName\<rparr>
             | _ \<Rightarrow> TypeError)
      | _ \<Rightarrow> ShowError ''Please fill all required fields.'')"

section \<open>Age field of the MDRO form (components/forms/MdrForm.tsx)\<close>

text \<open>
  The field is \<^verbatim>\<open>z.coerce.number().default(0).refine(n => n >= 0, "Age cannot be negative")\<close>.
  The three schema constructors are those of the validation library, modelled by what
  they do to one input: a schema maps the input to the issue it raises or to the value it
  yields.
\<close>

datatype ZodIssue = invalid_type | custom string

text \<open>
  \<^verbatim>\<open>Number(value)\<close>. The conversion of a text is the argument \<open>toNumber\<close>
  (the \<^verbatim>\<open>StringToNumber\<close> of the language).
\<close>

fun Number_of :: "(string \<Rightarrow> number) \<Rightarrow> JsValue \<Rightarrow> number" where
  "Number_of toNumber JUndefined = NaN"
| "Number_of toNumber JNull = Finite 0"
| "Number_of toNumber (JBoolean b) = Finite (if b then 1 else 0)"
| "Number_of toNumber (JNumber n) = n"
| "Number_of toNumber (JString t) = toNumber t"

text \<open>
  \<^verbatim>\<open>z.coerce.number()\<close>: the input is replaced by \<^verbatim>\<open>Number(input)\<close>; the
  result must be a number other than \<open>NaN\<close>, or the issue \<open>invalid_type\<close> is raised.
\<close>

definition z_coerce_number :: "(string \<Rightarrow> number) \<Rightarrow> JsValue \<Rightarrow> ZodIssue + rat" where
  "z_coerce_number toNumber input =
     (case Number_of toNumber input of NaN \<Rightarrow> Inl invalid_type | Finite n \<Rightarrow> Inr n)"

text \<open>\<^verbatim>\<open>.default(d)\<close>: an input that is \<^verbatim>\<open>undefined\<close> is replaced by \<open>d\<close>.\<close>

definition z_default :: "JsValue \<Rightarrow> (JsValue \<Rightarrow> ZodIssue + 'a) \<Rightarrow> JsValue \<Rightarrow> ZodIssue + 'a" where
  "z_default d inner input = inner (if input = JUndefined then d else input)"

text \<open>
  \<^verbatim>\<open>.refine(check, message)\<close>: an issue of the inner schema stands; a value that
  fails the check raises a custom issue with the message.
\<close>

definition z_refine ::
  "('a \<Rightarrow> bool) \<Rightarrow> string \<Rightarrow> (JsValue \<Rightarrow> ZodIssue + 'a) \<Rightarrow> JsValue \<Rightarrow> ZodIssue + 'a" where
  "z_refine check message inner input =
     (case inner input of
        Inl issue \<Rightarrow> Inl issue
      | Inr v \<Rightarrow> if check v then Inr v else Inl (custom message))"

definition mdrSchema_age :: "(string \<Rightarrow> number) \<Rightarrow> JsValue \<Rightarrow> ZodIssue + rat" where
  "mdrSchema_age toNumber =
     z_refine (\<lambda>n. n \<ge> 0) ''Age cannot be negative''
       (z_default (JNumber (Finite 0)) (z_coerce_number toNumber))"

section \<open>Two conversions of the host, for evaluation on concrete inputs\<close>

definition digit_of :: "char \<Rightarrow> nat option" where
  "digit_of c =
     (let n = (of_char c :: nat) in if 48 \<le> n \<and> n \<le> 57 then Some (n - 48) else None)"

text \<open>The value of a non-empty text of decimal digits, read after the value \<open>acc\<close>.\<close>

fun digits_after :: "nat \<Rightarrow> string \<Rightarrow> nat option" where
  "digits_after acc [] = Some acc"
| "digits_after acc (c # cs) =
     (case digit_of c of None \<Rightarrow> None | Some d \<Rightarrow> digits_after (10 * acc + d) cs)"

definition digits_value :: "string \<Rightarrow> nat option" where
  "digits_value cs = (if cs = [] then None else digits_after 0 cs)"

text \<open>
  \<^verbatim>\<open>StringToNumber\<close> on the texts used below: white space around the text is
  dropped, the empty text is 0, and a decimal literal (an optional sign, digits, an
  optional point and digits; no exponent) has its exact value. Every other text is
  \<open>NaN\<close> here; the language also reads exponents, \<^verbatim>\<open>Infinity\<close> and the
  prefixes \<^verbatim>\<open>0x\<close>, \<^verbatim>\<open>0o\<close>, \<^verbatim>\<open>0b\<close>, which this conversion is not applied to.
\<close>

definition is_space :: "char \<Rightarrow> bool" where
  "is_space c = (of_char c \<in> {9, 10, 11, 12, 13, 32 :: nat})"

definition trim :: "string \<Rightarrow> string" where
  "trim t = rev (dropWhile is_space (rev (dropWhile is_space t)))"

definition unsigned_decimal :: "string \<Rightarrow> rat option" where
  "unsigned_decimal t =
     (let ip = takeWhile (\<lambda>c. c \<noteq> CHR ''.'') t;
          rest = dropWhile (\<lambda>c. c \<noteq> CHR ''.'') t
      in if rest = [] then map_option of_nat (digits_value ip)
         else
           (let fp = tl rest in
            if ip = [] \<and> fp = [] then None
            else
              (case (if ip = [] then Some 0 else digits_value ip,
                     if fp = [] then Some 0 else digits_value fp) of
                 (Some i, Some f) \<Rightarrow> Some (of_nat i + of_nat f / 10 ^ length fp)
               | _ \<Rightarrow> None)))"

definition StringToNumber_decimal :: "string \<Rightarrow> number" where
  "StringToNumber_decimal t =
     (let u = trim t in
      if u = [] then Finite 0
      else
        (let neg = (hd u = CHR ''-'');
             body = (if hd u = CHR ''-'' \<or> hd u = CHR ''+'' then tl u else u)
         in case unsigned_decimal body of
              None \<Rightarrow> NaN
            | Some v \<Rightarrow> Finite (if neg then - v else v)))"

text \<open>
  The time value of a date-only text \<^verbatim>\<open>YYYY-MM-DD\<close>, which is what a date input
  holds: midnight UTC of that day of the proleptic Gregorian calendar, in
  milliseconds since 1970-01-01. Every other text is \<open>NaN\<close> here.
\<close>

definition days_from_civil :: "int \<Rightarrow> int \<Rightarrow> int \<Rightarrow> int" where
  "days_from_civil y m d =
     (let y' = (if m \<le> 2 then y - 1 else y);
          era = y' div 400;
          yoe = y' - era * 400;
          doy = (153 * (if m > 2 then m - 3 else m + 9) + 2) div 5 + d - 1;
          doe = yoe * 365 + yoe div 4 - yoe div 100 + doy
      in era * 146097 + doe - 719468)"

definition days_in_month :: "int \<Rightarrow> int \<Rightarrow> int" where
  "days_in_month y m =
     (if m = 2 then (if y mod 4 = 0 \<and> (y mod 100 \<noteq> 0 \<or> y mod 400 = 0) then 29 else 28)
      else if m \<in> {4, 6, 9, 11} then 30 else 31)"

definition getTime_date_only :: "string \<Rightarrow> number" where
  "getTime_date_only t =
     (if length t = 10 \<and> t ! 4 = CHR ''-'' \<and> t ! 7 = CHR ''-'' then
        (case (digits_value (take 4 t), digits_value (take 2 (drop 5 t)),
               digits_value (drop 8 t)) of
           (Some y, Some m, Some d) \<Rightarrow>
             if 1 \<le> m \<and> m \<le> 12 \<and> 1 \<le> d \<and> int d \<le> days_in_month (int y) (int m)
             then Finite (of_int (days_from_civil (int y) (int m) (int d) * 86400000))
             else NaN
         | _ \<Rightarrow> NaN)
      else NaN)"

section \<open>Notions of the specification\<close>

text \<open>
  The vocabulary in which the properties below are stated. Each definition follows the
  words of the specification and is compared with the code by the theorems.
\<close>

text \<open>At least one symptom flag of the form is set.\<close>

definition any_symptom_flag :: "CautiSurveillanceInsert \<Rightarrow> bool" where
  "any_symptom_flag formData =
     (case symptoms formData of
        None \<Rightarrow> False
      | Some s \<Rightarrow>
          fever s \<or> rigors s \<or> hypotension s \<or> confusion_with_leukocytosis s
          \<or> costovertebral_pain s \<or> suprapubic_tenderness s
          \<or> testes_epididymis_prostate_pain s \<or> purulent_discharge s)"

text \<open>At least one laboratory-finding flag of the form is set.\<close>

definition any_laboratory_flag :: "CautiSurveillanceInsert \<Rightarrow> bool" where
  "any_laboratory_flag formData =
     (case laboratory_findings formData of
        None \<Rightarrow> False
      | Some l \<Rightarrow> clean_catch_voided l \<or> straight_catheter_specimen l \<or> iuc_specimen l)"

text \<open>The required patient and catheter texts of the CAUTI form are all filled in.\<close>

definition cauti_required_filled :: "CautiSurveillanceInsert \<Rightarrow> bool" where
  "cauti_required_filled formData =
     (patient_name formData \<noteq> [] \<and> hospital_id formData \<noteq> []
      \<and> ward_bed_number formData \<noteq> [] \<and> catheter_insertion_date formData \<noteq> [])"

text \<open>
  The number of bundle components that count on the day of the entry, and how many of
  them are ticked: skin preparation counts on day 1 only.
\<close>

definition applicableDenominator :: "(string \<Rightarrow> number) \<Rightarrow> ClabsiFormData \<Rightarrow> nat" where
  "applicableDenominator getTime formData =
     (if calculateDayNumber getTime formData = Finite 1 then 5 else 4)"

definition completedComponents :: "(string \<Rightarrow> number) \<Rightarrow> ClabsiFormData \<Rightarrow> nat" where
  "completedComponents getTime formData =
     count_list
       ((if calculateDayNumber getTime formData = Finite 1 then [skinPrep2CHG formData] else [])
        @ [dressingChangeDaily formData, patencyLumens formData, hubCareAlcohol formData,
           ivTubingChangeDaily formData])
       True"

text \<open>
  A time value of a valid date: an integer number of milliseconds within the range of
  \<^verbatim>\<open>Date\<close>.
\<close>

definition valid_time_value :: "int \<Rightarrow> bool" where
  "valid_time_value t = (\<bar>t\<bar> \<le> 8640000000000000)"

text \<open>
  Two time values whose distance the source computes exactly: they are at most
  \<open>2 ^ 53\<close> milliseconds apart (some 285000 years), or a whole number of days apart.
\<close>

definition exactly_computed :: "int \<Rightarrow> int \<Rightarrow> bool" where
  "exactly_computed ta te = (\<bar>te - ta\<bar> \<le> 2 ^ 53 \<or> 86400000 dvd (te - ta))"

text \<open>
  The saved rows are well formed: patient, entry date and admission date are not empty,
  as in every row that the form itself has inserted.
\<close>

definition well_formed_rows :: "ClabsiEntry list \<Rightarrow> bool" where
  "well_formed_rows savedEntries =
     list_all (\<lambda>e. ClabsiEntry.patient_id e \<noteq> [] \<and> ClabsiEntry.entry_date e \<noteq> []
                  \<and> ClabsiEntry.admission_date e \<noteq> [])
       savedEntries"

text \<open>
  The triple (patient, entry date, shift) of the form occurs among the saved rows.
\<close>

definition triple_saved :: "ClabsiEntry list \<Rightarrow> ClabsiFormData \<Rightarrow> bool" where
  "triple_saved savedEntries formData =
     list_ex (\<lambda>e. ClabsiEntry.patient_id e = patientId formData
                 \<and> ClabsiEntry.entry_date e = entryDate formData
                 \<and> Some (ClabsiEntry.shift e) = ClabsiFormData.shift formData)
       savedEntries"

text \<open>The required fields of the bundle form are all filled in.\<close>

definition bundle_required_filled :: "ClabsiFormData \<Rightarrow> bool" where
  "bundle_required_filled formData =
     (patientId formData \<noteq> [] \<and> entryDate formData \<noteq> []
      \<and> ClabsiFormData.shift formData \<noteq> None \<and> admissionDate formData \<noteq> []
      \<and> admissionShift formData \<noteq> None)"

section \<open>Concrete inputs\<close>

text \<open>
  \<^verbatim>\<open>initialState\<close> of the CAUTI form; its argument is the date of today as text.
  Properties that the object literal does not mention are absent.
\<close>

definition initialState :: "string \<Rightarrow> CautiSurveillanceInsert" where
  "initialState today =
     \<lparr>CautiSurveillanceInsert.id' = None, form_number = None,
      CautiSurveillanceInsert.patient_id = Undefined, patient_name = [],
      hospital_id = [], age = JNumber (Finite 0), gender = Null, ward_bed_number = [],
      CautiSurveillanceInsert.department = ICU, catheter_insertion_date = [], catheter_removal_date = Undefined,
      reason_for_catheter = [], catheter_type = Undefined, surveillance_date = today,
      event_date = Undefined,
      symptoms = Some \<lparr>fever = False, rigors = False, hypotension = False,
        confusion_with_leukocytosis = False, costovertebral_pain = False,
        suprapubic_tenderness = False, testes_epididymis_prostate_pain = False,
        purulent_discharge = False\<rparr>,
      laboratory_findings = Some \<lparr>clean_catch_voided = False,
        straight_catheter_specimen = False, iuc_specimen = False, culture_result = None,
        organism_identified = None, cfu_count = None, antibiotic_sensitivity = None\<rparr>,
      meets_cauti_criteria = Undefined, infection_preventable = Undefined,
      contributing_factors = Undefined, notes' = Val [], submitted_by = Undefined,
      reviewed_by = Undefined, review_status = None, review_notes = Undefined,
      CautiSurveillanceInsert.is_active = Undefined\<rparr>"

text \<open>A filled-in CAUTI form with fever ticked and a catheter specimen.\<close>

definition filled_cauti_form :: CautiSurveillanceInsert where
  "filled_cauti_form =
     (initialState ''2024-03-05'')
       \<lparr>patient_name := ''A. Patient'', hospital_id := ''H-1001'',
        ward_bed_number := ''ICU-4'', catheter_insertion_date := ''2024-03-01'',
        symptoms := Some \<lparr>fever = True, rigors = False, hypotension = False,
          confusion_with_leukocytosis = False, costovertebral_pain = False,
          suprapubic_tenderness = False, testes_epididymis_prostate_pain = False,
          purulent_discharge = False\<rparr>,
        laboratory_findings := Some \<lparr>clean_catch_voided = False,
          straight_catheter_specimen = False, iuc_specimen = True, culture_result = None,
          organism_identified = None, cfu_count = None, antibiotic_sensitivity = None\<rparr>\<rparr>"

definition nurse_profile :: UserProfile where
  "nurse_profile =
     \<lparr>UserProfile.id' = ''p-17'', user_id = Some ''u-17'', email = ''nurse@example.org'',
      full_name = ''N. Nurse'', employee_id = None, phone = None, UserProfile.department = CCU,
      role = STAFF_NURSE, UserProfile.is_active = Some True, avatar_url = None,
      UserProfile.created_at = ''2024-01-01'', UserProfile.updated_at = ''2024-01-01''\<rparr>"

definition nurse_user :: User where
  "nurse_user = \<lparr>uid = ''u-17'', uemail = Some ''nurse@example.org''\<rparr>"

text \<open>A bundle form for patient P1, admitted on 2024-01-01 in the morning shift.\<close>

definition bundle_form :: "string \<Rightarrow> ShiftType \<Rightarrow> ClabsiFormData" where
  "bundle_form entry sh =
     \<lparr>patientId = ''P1'', admissionDate = ''2024-01-01'', admissionShift = Some M,
      dischargeDate = [], dischargeShift = None, dischargeType = None,
      entryDate = entry, ClabsiFormData.shift = Some sh, skinPrep2CHG = False,
      dressingChangeDaily = True, patencyLumens = True, hubCareAlcohol = True,
      ivTubingChangeDaily = True\<rparr>"

text \<open>A saved row of patient P1 for the given entry date and shift.\<close>

definition saved_entry :: "string \<Rightarrow> ShiftType \<Rightarrow> ClabsiEntry" where
  "saved_entry entry sh =
     \<lparr>ClabsiEntry.id' = ''e-1'',
      ClabsiEntry.patient_id = ''P1'',
      ClabsiEntry.admission_date = ''2024-01-01'',
      ClabsiEntry.admission_shift = M,
      ClabsiEntry.discharge_date = None,
      ClabsiEntry.discharge_shift = None,
      ClabsiEntry.discharge_type = None,
      ClabsiEntry.entry_date = entry,
      ClabsiEntry.shift = sh,
      ClabsiEntry.day_number = Finite 2,
      ClabsiEntry.skin_prep_2chg = False,
      ClabsiEntry.dressing_change_daily = True,
      ClabsiEntry.patency_lumens = True,
      ClabsiEntry.hub_care_alcohol = True,
      ClabsiEntry.iv_tubing_change_daily = True,
      ClabsiEntry.compliance_score = Finite 100,
      ClabsiEntry.created_by = ''u-17'',
      ClabsiEntry.department = CCU,
      ClabsiEntry.nurse_name = ''N. Nurse'',
      ClabsiEntry.created_at = ''2024-01-02'',
      ClabsiEntry.updated_at = ''2024-01-02''\<rparr>"

section \<open>Properties of the permission resolver\<close>

text \<open>
  Claim C1. For a profile that is present (its role and department are then members of
  their enums) and any form type, \<open>canAccessForm\<close> is true exactly when the role is
  ADMIN, IPC_FOCAL or IPC_OFFICER, or the form type is in both the role's list and the
  department's list. The STAFF_NURSE list is CAUTI, CLABSI, VAP, so a staff nurse of the
  ICU is refused MDRO, and is refused MDRO in every other department \<open>d\<close> too.
\<close>

theorem canAccessForm_iff:
  "canAccessForm (Some p) formType =
     (role p \<in> {ADMIN, IPC_FOCAL, IPC_OFFICER}
      \<or> (formType \<in> set (ROLE_FORM_PERMISSIONS (role p))
         \<and> formType \<in> set (DEPARTMENT_FORM_PERMISSIONS (UserProfile.department p))))
   \<and> set (ROLE_FORM_PERMISSIONS STAFF_NURSE) = {CAUTI, CLABSI, VAP}
   \<and> canAccessForm (Some (p\<lparr>role := STAFF_NURSE, UserProfile.department := ICU\<rparr>)) MDRO = False
   \<and> canAccessForm (Some (p\<lparr>role := STAFF_NURSE, UserProfile.department := d\<rparr>)) MDRO = False"
  by (auto simp add: canAccessForm_def hasRole_def array_includes_def)

text \<open>
  Claim C8. With no profile \<open>canAccessForm\<close> is false for every form type. A call
  through the context has no effect: it calls no setter, no remote operation and no
  router, and the provider state after it is the state before it.
\<close>

theorem canAccessForm_fails_closed:
  "canAccessForm None formType = False
   \<and> canAccessForm_call formType (s\<lparr>profile := None\<rparr>) = (False, [])
   \<and> snd (canAccessForm_call formType s) = []
   \<and> run_effects (snd (canAccessForm_call formType s)) s = s"
  by (simp add: canAccessForm_def canAccessForm_call_def run_effects_def)

lemma bundle_in_no_role_list: "CLABSI_BUNDLE \<notin> set (ROLE_FORM_PERMISSIONS r)"
  by (cases r) simp_all

lemma bundle_in_no_department_list: "CLABSI_BUNDLE \<notin> set (DEPARTMENT_FORM_PERMISSIONS d)"
  by (cases d) simp_all

text \<open>
  Claim C9. CLABSI_BUNDLE is in the list of no role \<open>r\<close> and of no department \<open>d\<close>.
  Hence a profile may access the bundle form exactly when its role is ADMIN, IPC_FOCAL
  or IPC_OFFICER, whatever its department; without a profile access is refused.
\<close>

theorem CLABSI_BUNDLE_access:
  "CLABSI_BUNDLE \<notin> set (ROLE_FORM_PERMISSIONS r)
   \<and> CLABSI_BUNDLE \<notin> set (DEPARTMENT_FORM_PERMISSIONS d)
   \<and> canAccessForm (Some p) CLABSI_BUNDLE = (role p \<in> {ADMIN, IPC_FOCAL, IPC_OFFICER})
   \<and> canAccessForm None CLABSI_BUNDLE = False"
  using bundle_in_no_role_list [of r] bundle_in_no_role_list [of "role p"]
    bundle_in_no_department_list [of d]
    bundle_in_no_department_list [of "UserProfile.department p"]
  by (auto simp add: canAccessForm_def hasRole_def array_includes_def)

section \<open>Properties of the session gate\<close>

text \<open>
  Claim C6. From every provider state \<open>s\<close>, and however the remote sign-out call ends
  (it succeeds, it answers with an error, it throws), \<open>signOut\<close> leaves user, profile
  and error cleared and the loading flag off. It navigates once, to the login page, and
  at that moment user, profile and error have already been cleared.
\<close>

theorem signOut_unauthenticated:
  "user (run_effects (signOut remote) s) = None
   \<and> profile (run_effects (signOut remote) s) = None
   \<and> error (run_effects (signOut remote) s) = None
   \<and> loading (run_effects (signOut remote) s) = False
   \<and> (\<exists>st. redirects (signOut remote) s = [(''/login'', st)]
           \<and> user st = None \<and> profile st = None \<and> error st = None)"
  by (cases remote) (simp_all add: signOut_def run_effects_def)

section \<open>Properties of the CAUTI form\<close>

lemma some_symptom_iff:
  "array_some strict_eq_true (symptoms_values (symptoms formData)) = any_symptom_flag formData"
  by (auto simp add: array_some_def strict_eq_true_def symptoms_values_def any_symptom_flag_def
      split: option.splits)

lemma some_laboratory_iff:
  "array_some strict_eq_true (laboratory_findings_values (laboratory_findings formData))
     = any_laboratory_flag formData"
  by (auto simp add: array_some_def strict_eq_true_def laboratory_findings_values_def
      optional_text_def any_laboratory_flag_def split: option.splits)

lemma validateForm_cases:
  "validateForm formData =
     (if \<not> cauti_required_filled formData
      then Inl ''Please fill in all required patient and catheter information.''
      else if \<not> any_symptom_flag formData
      then Inl ''Please select at least one sign or symptom.''
      else if \<not> any_laboratory_flag formData
      then Inl ''Please select at least one laboratory finding.''
      else Inr ())"
  unfolding validateForm_def some_symptom_iff some_laboratory_iff cauti_required_filled_def
  by simp

lemma filled_form_facts:
  "cauti_required_filled filled_cauti_form" "any_symptom_flag filled_cauti_form"
  "any_laboratory_flag filled_cauti_form"
  by (simp_all add: filled_cauti_form_def initialState_def cauti_required_filled_def
      any_symptom_flag_def any_laboratory_flag_def)

lemma initial_form_facts:
  "\<not> cauti_required_filled (initialState today)" "\<not> any_symptom_flag (initialState today)"
  "\<not> any_laboratory_flag (initialState today)"
  by (simp_all add: initialState_def cauti_required_filled_def
      any_symptom_flag_def any_laboratory_flag_def)

text \<open>
  Claim C2, as the code has it. A CAUTI submission with no symptom flag set is refused
  by the validation and passes no row to the insertion, whatever its other fields. A
  submission is accepted, and a row is passed to the insertion, only if a symptom flag
  and a laboratory-finding flag are set. When the four required texts are filled in,
  the error names the first missing category: the symptoms, or else the laboratory
  findings. When a required text is empty, the error is the one about the required
  patient and catheter information, whatever the flags are.
\<close>

theorem validateForm_cross_field:
  "(\<not> any_symptom_flag formData \<longrightarrow>
      (\<exists>msg. validateForm formData = Inl msg)
      \<and> inserted_payload (CautiForm_handleSubmit remote_insert usr prof formData) = None)
   \<and> (validateForm formData = Inr () \<longrightarrow>
        any_symptom_flag formData \<and> any_laboratory_flag formData)
   \<and> (inserted_payload (CautiForm_handleSubmit remote_insert usr prof formData) \<noteq> None \<longrightarrow>
        any_symptom_flag formData \<and> any_laboratory_flag formData)
   \<and> (cauti_required_filled formData \<and> \<not> any_symptom_flag formData \<longrightarrow>
        validateForm formData = Inl ''Please select at least one sign or symptom.'')
   \<and> (cauti_required_filled formData \<and> any_symptom_flag formData
        \<and> \<not> any_laboratory_flag formData \<longrightarrow>
        validateForm formData = Inl ''Please select at least one laboratory finding.'')
   \<and> (\<not> cauti_required_filled formData \<longrightarrow>
        validateForm formData
          = Inl ''Please fill in all required patient and catheter information.'')"
  by (auto simp add: validateForm_cases CautiForm_handleSubmit_def
      split: option.splits sum.splits)

text \<open>
  The theorem at four forms: the filled-in form without its symptoms, the filled-in
  form, the filled-in form without its laboratory findings, and the initial form.
\<close>

theorem validateForm_cross_field_witness:
  "\<not> any_symptom_flag (filled_cauti_form\<lparr>symptoms := None\<rparr>)
   \<and> cauti_required_filled (filled_cauti_form\<lparr>symptoms := None\<rparr>)
   \<and> validateForm (filled_cauti_form\<lparr>symptoms := None\<rparr>)
       = Inl ''Please select at least one sign or symptom.''
   \<and> inserted_payload
        (CautiForm_handleSubmit (\<lambda>payload. None) (Some nurse_user) (Some nurse_profile)
           (filled_cauti_form\<lparr>symptoms := None\<rparr>)) = None
   \<and> validateForm filled_cauti_form = Inr ()
   \<and> any_symptom_flag filled_cauti_form \<and> any_laboratory_flag filled_cauti_form
   \<and> inserted_payload
        (CautiForm_handleSubmit (\<lambda>payload. None) (Some nurse_user) (Some nurse_profile)
           filled_cauti_form) \<noteq> None
   \<and> \<not> any_laboratory_flag (filled_cauti_form\<lparr>laboratory_findings := None\<rparr>)
   \<and> validateForm (filled_cauti_form\<lparr>laboratory_findings := None\<rparr>)
       = Inl ''Please select at least one laboratory finding.''
   \<and> \<not> cauti_required_filled (initialState ''2024-03-05'')
   \<and> validateForm (initialState ''2024-03-05'')
       = Inl ''Please fill in all required patient and catheter information.''"
proof -
  let ?ins = "\<lambda>payload :: CautiSurveillanceInsert. None :: string option"
  let ?u = "Some nurse_user" and ?p = "Some nurse_profile"
  have a: "\<not> any_symptom_flag (filled_cauti_form\<lparr>symptoms := None\<rparr>)"
    by (simp add: any_symptom_flag_def)
  have b: "cauti_required_filled (filled_cauti_form\<lparr>symptoms := None\<rparr>)"
    using filled_form_facts(1) by (simp add: cauti_required_filled_def)
  have c: "\<not> any_laboratory_flag (filled_cauti_form\<lparr>laboratory_findings := None\<rparr>)"
    by (simp add: any_laboratory_flag_def)
  have d: "cauti_required_filled (filled_cauti_form\<lparr>laboratory_findings := None\<rparr>)"
    "any_symptom_flag (filled_cauti_form\<lparr>laboratory_findings := None\<rparr>)"
    using filled_form_facts by (simp_all add: cauti_required_filled_def any_symptom_flag_def)
  have e: "validateForm filled_cauti_form = Inr ()"
    using filled_form_facts by (simp add: validateForm_cases)
  have f: "inserted_payload (CautiForm_handleSubmit ?ins ?u ?p filled_cauti_form) \<noteq> None"
    using e by (simp add: CautiForm_handleSubmit_def)
  show ?thesis
    using validateForm_cross_field [of "filled_cauti_form\<lparr>symptoms := None\<rparr>" ?ins ?u ?p]
      validateForm_cross_field [of filled_cauti_form ?ins ?u ?p]
      validateForm_cross_field [of "filled_cauti_form\<lparr>laboratory_findings := None\<rparr>" ?ins ?u ?p]
      validateForm_cross_field [of "initialState ''2024-03-05''" ?ins ?u ?p]
      a b c d e f initial_form_facts [of "''2024-03-05''"]
    by simp
qed

text \<open>
  Claim C2 as stated fails at the initial form: no symptom flag is set, the submission
  is refused, and the error names neither the symptoms nor the laboratory findings.
\<close>

theorem validateForm_counterexample:
  "\<not> any_symptom_flag (initialState ''2024-03-05'')
   \<and> validateForm (initialState ''2024-03-05'')
       = Inl ''Please fill in all required patient and catheter information.''
   \<and> validateForm (initialState ''2024-03-05'')
       \<noteq> Inl ''Please select at least one sign or symptom.''
   \<and> validateForm (initialState ''2024-03-05'')
       \<noteq> Inl ''Please select at least one laboratory finding.''"
  by (simp add: validateForm_cases initial_form_facts)

text \<open>
  Claim C10. Whenever a CAUTI submission passes a row to the insertion, there is a
  profile, the row's \<open>submitted_by\<close> is the id of the profile and its department is
  the department of the profile, whatever department the form state held; the row is
  the form state with these two fields set, so setting the two fields back gives the
  form state again: every other field is carried over unchanged.
\<close>

theorem CautiForm_payload_stamp:
  "inserted_payload (CautiForm_handleSubmit remote_insert usr prof formData) = Some payload \<Longrightarrow>
     (\<exists>p. prof = Some p
        \<and> submitted_by payload = Val (UserProfile.id' p)
        \<and> CautiSurveillanceInsert.department payload = UserProfile.department p
        \<and> payload = formData\<lparr>submitted_by := Val (UserProfile.id' p),
                              CautiSurveillanceInsert.department := UserProfile.department p\<rparr>)
     \<and> payload\<lparr>submitted_by := submitted_by formData,
               CautiSurveillanceInsert.department := CautiSurveillanceInsert.department formData\<rparr>
         = formData"
  by (auto simp add: CautiForm_handleSubmit_def Let_def
      split: option.splits sum.splits)

text \<open>
  The theorem at the filled-in form, submitted by a nurse of the CCU, the insertion
  succeeding: the form held ICU, the row holds CCU and the nurse's profile id.
\<close>

theorem CautiForm_payload_stamp_witness:
  "CautiForm_handleSubmit (\<lambda>payload. None) (Some nurse_user) (Some nurse_profile)
       filled_cauti_form
     = CautiInserted (filled_cauti_form\<lparr>submitted_by := Val ''p-17'',
                         CautiSurveillanceInsert.department := CCU\<rparr>)
   \<and> CautiSurveillanceInsert.department filled_cauti_form = ICU
   \<and> submitted_by (filled_cauti_form\<lparr>submitted_by := Val ''p-17'',
                      CautiSurveillanceInsert.department := CCU\<rparr>)
       = Val (UserProfile.id' nurse_profile)
   \<and> CautiSurveillanceInsert.department
        (filled_cauti_form\<lparr>submitted_by := Val ''p-17'',
           CautiSurveillanceInsert.department := CCU\<rparr>)
       = UserProfile.department nurse_profile
   \<and> (filled_cauti_form\<lparr>submitted_by := Val ''p-17'',
         CautiSurveillanceInsert.department := CCU\<rparr>)
        \<lparr>submitted_by := submitted_by filled_cauti_form,
         CautiSurveillanceInsert.department :=
           CautiSurveillanceInsert.department filled_cauti_form\<rparr>
       = filled_cauti_form"
proof -
  let ?ins = "\<lambda>payload :: CautiSurveillanceInsert. None :: string option"
  let ?pl = "filled_cauti_form\<lparr>submitted_by := Val ''p-17'',
                         CautiSurveillanceInsert.department := CCU\<rparr>"
  have v: "validateForm filled_cauti_form = Inr ()"
    using filled_form_facts by (simp add: validateForm_cases)
  have run: "CautiForm_handleSubmit ?ins (Some nurse_user) (Some nurse_profile) filled_cauti_form
     = CautiInserted ?pl"
    using v by (simp add: CautiForm_handleSubmit_def nurse_profile_def)
  then have "inserted_payload
      (CautiForm_handleSubmit ?ins (Some nurse_user) (Some nurse_profile) filled_cauti_form)
     = Some ?pl"
    by simp
  from CautiForm_payload_stamp [OF this] run show ?thesis
    by (simp add: filled_cauti_form_def initialState_def)
qed

section \<open>Properties of the bundle tracker\<close>

lemma dayNumber_valid:
  assumes "admissionDate formData \<noteq> []" "entryDate formData \<noteq> []"
    and "getTime (admissionDate formData) = Finite (of_int ta)"
    and "getTime (entryDate formData) = Finite (of_int te)"
  shows "calculateDayNumber getTime formData
           = Finite (of_int (\<lceil>of_int \<bar>te - ta\<bar> / (86400000 :: rat)\<rceil> + 1))"
  using assms by (simp add: calculateDayNumber_def Let_def)

lemma ceiling_whole_days: "\<lceil>of_int (k * 86400000) / (86400000 :: rat)\<rceil> = k"
  by simp

text \<open>
  Claim C4. For an admission date and an entry date that are valid (each text is not
  empty and denotes a date, with time values \<open>ta\<close> and \<open>te\<close> in the range of
  \<^verbatim>\<open>Date\<close>) and whose distance the source computes exactly (at most \<open>2 ^ 53\<close>
  milliseconds or a whole number of days, which covers every pair of date-only texts),
  the day number is the ceiling of the distance of the two in days, plus one. It is 1
  when the entry date is the admission date, it is \<open>k + 1\<close> when entry and admission
  are \<open>k\<close> whole days apart, and an entry date one day further from the admission has
  a day number greater by exactly one.
\<close>

theorem calculateDayNumber_formula:
  assumes "admissionDate formData \<noteq> []" "entryDate formData \<noteq> []"
    and "getTime (admissionDate formData) = Finite (of_int ta)"
    and "getTime (entryDate formData) = Finite (of_int te)"
    and "valid_time_value ta" "valid_time_value te" "exactly_computed ta te"
  shows "calculateDayNumber getTime formData
           = Finite (of_int (\<lceil>of_int \<bar>te - ta\<bar> / (86400000 :: rat)\<rceil> + 1))
     \<and> (entryDate formData = admissionDate formData \<longrightarrow>
          calculateDayNumber getTime formData = Finite 1)
     \<and> (\<bar>te - ta\<bar> = k * 86400000 \<longrightarrow>
          calculateDayNumber getTime formData = Finite (of_int (k + 1)))
     \<and> (\<forall>formData' te'.
          admissionDate formData' = admissionDate formData \<and> entryDate formData' \<noteq> []
          \<and> getTime (entryDate formData') = Finite (of_int te')
          \<and> valid_time_value te' \<and> exactly_computed ta te'
          \<and> \<bar>te' - ta\<bar> = \<bar>te - ta\<bar> + 86400000 \<longrightarrow>
          calculateDayNumber getTime formData'
            = num_plus (calculateDayNumber getTime formData) (Finite 1))"
proof (intro conjI allI impI)
  show main: "calculateDayNumber getTime formData
           = Finite (of_int (\<lceil>of_int \<bar>te - ta\<bar> / (86400000 :: rat)\<rceil> + 1))"
    using assms(1-4) by (rule dayNumber_valid)
  show "calculateDayNumber getTime formData = Finite 1"
    if "entryDate formData = admissionDate formData"
  proof -
    from that assms(3,4) have "te = ta" by simp
    with main show ?thesis by simp
  qed
  show "calculateDayNumber getTime formData = Finite (of_int (k + 1))"
    if "\<bar>te - ta\<bar> = k * 86400000"
    using main that by (simp only: ceiling_whole_days)
  show "calculateDayNumber getTime formData'
            = num_plus (calculateDayNumber getTime formData) (Finite 1)"
    if h: "admissionDate formData' = admissionDate formData \<and> entryDate formData' \<noteq> []
          \<and> getTime (entryDate formData') = Finite (of_int te')
          \<and> valid_time_value te' \<and> exactly_computed ta te'
          \<and> \<bar>te' - ta\<bar> = \<bar>te - ta\<bar> + 86400000" for formData' te'
  proof -
    have "calculateDayNumber getTime formData'
           = Finite (of_int (\<lceil>of_int \<bar>te' - ta\<bar> / (86400000 :: rat)\<rceil> + 1))"
      using h assms(1,3) by (intro dayNumber_valid) simp_all
    moreover have "\<lceil>of_int \<bar>te' - ta\<bar> / (86400000 :: rat)\<rceil>
        = \<lceil>of_int \<bar>te - ta\<bar> / (86400000 :: rat)\<rceil> + 1"
    proof -
      have "(of_int \<bar>te' - ta\<bar> :: rat) / 86400000 = of_int \<bar>te - ta\<bar> / 86400000 + 1"
        using h by simp
      then show ?thesis by (simp only: ceiling_add_one)
    qed
    ultimately show ?thesis using main by simp
  qed
qed

text \<open>On day 1 each ticked component is worth 20, on every other day 25.\<close>

lemma compliance_day_one:
  "calculateDayNumber getTime formData = Finite 1 \<Longrightarrow>
     calculateCompliance getTime formData = 20 * int (completedComponents getTime formData)"
  by (cases "skinPrep2CHG formData"; cases "dressingChangeDaily formData";
      cases "patencyLumens formData"; cases "hubCareAlcohol formData";
      cases "ivTubingChangeDaily formData")
     (simp_all add: calculateCompliance_def completedComponents_def incr_if_def Math_round_def
        floor_eq_iff)

lemma compliance_other_day:
  "calculateDayNumber getTime formData \<noteq> Finite 1 \<Longrightarrow>
     calculateCompliance getTime formData = 25 * int (completedComponents getTime formData)"
  by (cases "dressingChangeDaily formData";
      cases "patencyLumens formData"; cases "hubCareAlcohol formData";
      cases "ivTubingChangeDaily formData")
     (simp_all add: calculateCompliance_def completedComponents_def incr_if_def Math_round_def
        floor_eq_iff)

lemma completed_le_denominator:
  "completedComponents getTime formData \<le> applicableDenominator getTime formData"
  by (simp add: completedComponents_def applicableDenominator_def)

lemma round_fifths: "c \<le> 5 \<Longrightarrow> Math_round (100 * of_nat c / of_nat 5) = 20 * int c"
proof -
  assume "c \<le> 5"
  then have "c \<in> {0, 1, 2, 3, 4, 5}" by auto
  then show ?thesis by (auto simp add: Math_round_def floor_eq_iff)
qed

lemma round_quarters: "c \<le> 4 \<Longrightarrow> Math_round (100 * of_nat c / of_nat 4) = 25 * int c"
proof -
  assume "c \<le> 4"
  then have "c \<in> {0, 1, 2, 3, 4}" by auto
  then show ?thesis by (auto simp add: Math_round_def floor_eq_iff)
qed

text \<open>
  Claim C3. For every state of the bundle form, the compliance percentage is the
  rounded value of 100 times the completed components over the applicable denominator,
  which is 5 when the computed day number is 1 (skin preparation counts) and 4 on every
  other day. With 4 of the 5 components ticked on day 1 it is 80, and with 4 of 4
  ticked on another day it is 100.
\<close>

theorem calculateCompliance_formula:
  "calculateCompliance getTime formData
     = Math_round (100 * of_nat (completedComponents getTime formData)
                     / of_nat (applicableDenominator getTime formData))
   \<and> applicableDenominator getTime formData
       = (if calculateDayNumber getTime formData = Finite 1 then 5 else 4)
   \<and> (calculateDayNumber getTime formData = Finite 1
        \<and> completedComponents getTime formData = 4 \<longrightarrow>
        calculateCompliance getTime formData = 80)
   \<and> (calculateDayNumber getTime formData \<noteq> Finite 1
        \<and> completedComponents getTime formData = 4 \<longrightarrow>
        calculateCompliance getTime formData = 100)"
proof (cases "calculateDayNumber getTime formData = Finite 1")
  case True
  then have d: "applicableDenominator getTime formData = 5"
    by (simp add: applicableDenominator_def)
  with completed_le_denominator [of getTime formData]
  have "completedComponents getTime formData \<le> 5" by simp
  from round_fifths [OF this] compliance_day_one [OF True] d True show ?thesis by simp
next
  case False
  then have d: "applicableDenominator getTime formData = 4"
    by (simp add: applicableDenominator_def)
  with completed_le_denominator [of getTime formData]
  have "completedComponents getTime formData \<le> 4" by simp
  from round_quarters [OF this] compliance_other_day [OF False] d False show ?thesis by simp
qed

text \<open>Time values of three dates in January 2024, and the fields of the sample form.\<close>

lemma getTime_jan:
  "getTime_date_only ''2024-01-01'' = Finite (of_int 1704067200000)"
  "getTime_date_only ''2024-01-03'' = Finite (of_int 1704240000000)"
  "getTime_date_only ''2024-01-04'' = Finite (of_int 1704326400000)"
  by code_simp+

lemma bundle_form_fields:
  "admissionDate (bundle_form entry sh) = ''2024-01-01''"
  "entryDate (bundle_form entry sh) = entry"
  "patientId (bundle_form entry sh) = ''P1''"
  "ClabsiFormData.shift (bundle_form entry sh) = Some sh"
  "admissionShift (bundle_form entry sh) = Some M"
  "skinPrep2CHG (bundle_form entry sh) = False"
  "dressingChangeDaily (bundle_form entry sh) = True"
  "patencyLumens (bundle_form entry sh) = True"
  "hubCareAlcohol (bundle_form entry sh) = True"
  "ivTubingChangeDaily (bundle_form entry sh) = True"
  by (simp_all add: bundle_form_def)

text \<open>
  The theorem at a patient admitted on 2024-01-01: an entry of 2024-01-03 is day 3, an
  entry one day later is day 4, and an entry on the day of admission is day 1. The
  three time values are in the range of \<^verbatim>\<open>Date\<close> and whole days apart.
\<close>

theorem calculateDayNumber_formula_witness:
  "admissionDate (bundle_form ''2024-01-03'' M) \<noteq> []
   \<and> entryDate (bundle_form ''2024-01-03'' M) \<noteq> []
   \<and> getTime_date_only (admissionDate (bundle_form ''2024-01-03'' M))
       = Finite (of_int 1704067200000)
   \<and> getTime_date_only (entryDate (bundle_form ''2024-01-03'' M))
       = Finite (of_int 1704240000000)
   \<and> valid_time_value 1704067200000 \<and> valid_time_value 1704240000000
   \<and> valid_time_value 1704326400000
   \<and> exactly_computed 1704067200000 1704240000000
   \<and> exactly_computed 1704067200000 1704326400000
   \<and> exactly_computed 1704067200000 1704067200000
   \<and> calculateDayNumber getTime_date_only (bundle_form ''2024-01-03'' M) = Finite 3
   \<and> calculateDayNumber getTime_date_only (bundle_form ''2024-01-04'' M) = Finite 4
   \<and> calculateDayNumber getTime_date_only (bundle_form ''2024-01-01'' M) = Finite 1"
proof -
  let ?g = getTime_date_only
  let ?B = "bundle_form ''2024-01-03'' M" and ?C = "bundle_form ''2024-01-04'' M"
  let ?A = "bundle_form ''2024-01-01'' M"
  have v: "valid_time_value 1704067200000" "valid_time_value 1704240000000"
    "valid_time_value 1704326400000"
    by (simp_all add: valid_time_value_def)
  have x: "exactly_computed 1704067200000 1704240000000"
    "exactly_computed 1704067200000 1704326400000"
    "exactly_computed 1704067200000 1704067200000"
    by (simp_all add: exactly_computed_def)
  have h1: "admissionDate ?B \<noteq> []" and h2: "entryDate ?B \<noteq> []"
    by (simp_all add: bundle_form_fields)
  have h3: "?g (admissionDate ?B) = Finite (of_int 1704067200000)"
    and h4: "?g (entryDate ?B) = Finite (of_int 1704240000000)"
    by (simp_all only: bundle_form_fields getTime_jan)
  note T = calculateDayNumber_formula [OF h1 h2 h3 h4 v(1) v(2) x(1), of 2]
  from T have three: "calculateDayNumber ?g ?B = Finite 3" by simp
  from T have "admissionDate ?C = admissionDate ?B \<and> entryDate ?C \<noteq> []
      \<and> ?g (entryDate ?C) = Finite (of_int 1704326400000)
      \<and> valid_time_value 1704326400000 \<and> exactly_computed 1704067200000 1704326400000
      \<and> \<bar>1704326400000 - 1704067200000\<bar> = \<bar>1704240000000 - 1704067200000\<bar> + (86400000 :: int)
      \<longrightarrow> calculateDayNumber ?g ?C = num_plus (calculateDayNumber ?g ?B) (Finite 1)"
    by blast
  then have four: "calculateDayNumber ?g ?C = Finite 4"
    using three v(3) x(2) by (simp add: bundle_form_fields getTime_jan)
  have a1: "admissionDate ?A \<noteq> []" and a2: "entryDate ?A \<noteq> []"
    by (simp_all add: bundle_form_fields)
  have a3: "?g (admissionDate ?A) = Finite (of_int 1704067200000)"
    and a4: "?g (entryDate ?A) = Finite (of_int 1704067200000)"
    by (simp_all only: bundle_form_fields getTime_jan)
  from calculateDayNumber_formula [OF a1 a2 a3 a4 v(1) v(1) x(3), of 0]
  have one: "calculateDayNumber ?g ?A = Finite 1" by (simp add: bundle_form_fields)
  from h1 h2 h3 h4 v x three four one show ?thesis by simp
qed

lemma day_numbers:
  "calculateDayNumber getTime_date_only (bundle_form ''2024-01-01'' M) = Finite 1"
  "calculateDayNumber getTime_date_only (bundle_form ''2024-01-03'' M) = Finite 3"
  by (simp_all add: calculateDayNumber_def bundle_form_fields getTime_jan ceiling_eq_iff)

text \<open>
  The theorem at two forms with the four daily components ticked and skin preparation
  not ticked: 80 on the day of admission, 100 on day 3.
\<close>

theorem calculateCompliance_formula_witness:
  "calculateDayNumber getTime_date_only (bundle_form ''2024-01-01'' M) = Finite 1
   \<and> completedComponents getTime_date_only (bundle_form ''2024-01-01'' M) = 4
   \<and> applicableDenominator getTime_date_only (bundle_form ''2024-01-01'' M) = 5
   \<and> calculateCompliance getTime_date_only (bundle_form ''2024-01-01'' M) = 80
   \<and> calculateDayNumber getTime_date_only (bundle_form ''2024-01-03'' M) \<noteq> Finite 1
   \<and> completedComponents getTime_date_only (bundle_form ''2024-01-03'' M) = 4
   \<and> applicableDenominator getTime_date_only (bundle_form ''2024-01-03'' M) = 4
   \<and> calculateCompliance getTime_date_only (bundle_form ''2024-01-03'' M) = 100"
proof -
  let ?g = getTime_date_only
  let ?A = "bundle_form ''2024-01-01'' M" and ?B = "bundle_form ''2024-01-03'' M"
  have a: "calculateDayNumber ?g ?A = Finite 1" "completedComponents ?g ?A = 4"
    by (simp_all add: day_numbers completedComponents_def bundle_form_fields)
  have b: "calculateDayNumber ?g ?B \<noteq> Finite 1" "completedComponents ?g ?B = 4"
    by (simp_all add: day_numbers completedComponents_def bundle_form_fields)
  note TA = calculateCompliance_formula [of ?g ?A]
    and TB = calculateCompliance_formula [of ?g ?B]
  from TA a have a80: "calculateCompliance ?g ?A = 80" by blast
  from TA a have a5: "applicableDenominator ?g ?A = 5" by simp
  from TB b have b100: "calculateCompliance ?g ?B = 100" by blast
  from TB b have b4: "applicableDenominator ?g ?B = 4" by simp
  from a b a80 a5 b100 b4 show ?thesis by simp
qed

text \<open>
  The duplicate test of \<^verbatim>\<open>handleSubmit\<close>,
  \<^verbatim>\<open>getEnteredShifts().includes(formData.shift)\<close>, holds exactly when the triple of
  the form is among the saved rows.
\<close>

lemma entered_shift_iff:
  "ClabsiFormData.shift formData = Some sh \<Longrightarrow>
     array_includes (getEnteredShifts savedEntries formData) sh = triple_saved savedEntries formData"
  by (auto simp add: array_includes_def getEnteredShifts_def triple_saved_def list_ex_iff)

lemma triple_saved_shift:
  assumes "triple_saved savedEntries formData"
  shows "\<exists>sh. ClabsiFormData.shift formData = Some sh"
proof -
  from assms obtain e :: ClabsiEntry
    where "Some (ClabsiEntry.shift e) = ClabsiFormData.shift formData"
    by (auto simp add: triple_saved_def list_ex_iff)
  then have "ClabsiFormData.shift formData = Some (ClabsiEntry.shift e)" by simp
  then show ?thesis ..
qed

text \<open>
  With the triple saved and the required fields filled in, the submission is refused
  with the duplicate message for the shift of the form.
\<close>

lemma duplicate_message:
  assumes "triple_saved savedEntries formData" and "bundle_required_filled formData"
  shows "\<exists>sh. ClabsiFormData.shift formData = Some sh
           \<and> ClabsiBundleForm_handleSubmit getTime usr prof userName savedEntries formData
               = ShowError (''Entry for '' @ shift_text sh
                   @ '' shift on this date already exists.'')"
proof -
  from triple_saved_shift [OF assms(1)]
  obtain sh where sh: "ClabsiFormData.shift formData = Some sh"
    by blast
  from entered_shift_iff [OF sh] assms(1)
  have inc: "array_includes (getEnteredShifts savedEntries formData) sh" by simp
  from assms(2) obtain adm where adm: "admissionShift formData = Some adm"
    by (auto simp add: bundle_required_filled_def)
  from assms(2) sh adm inc
  have "ClabsiBundleForm_handleSubmit getTime usr prof userName savedEntries formData
      = ShowError (''Entry for '' @ shift_text sh @ '' shift on this date already exists.'')"
    by (simp add: ClabsiBundleForm_handleSubmit_def bundle_required_filled_def)
  with sh show ?thesis by blast
qed

text \<open>
  The effect that selects the saved patient leaves patient, entry date and shift of the
  form as they are, so the triple stays saved; and over well-formed rows it fills in
  the admission date and the admission shift, so that the form of a saved triple has
  all its required fields.
\<close>

lemma select_existing_patient_triple:
  "triple_saved savedEntries (select_existing_patient savedEntries formData)
     = triple_saved savedEntries formData"
  by (simp add: triple_saved_def select_existing_patient_def split: option.splits)

lemma existingPatient_found:
  assumes "triple_saved savedEntries formData"
  shows "\<exists>e. existingPatient savedEntries formData = Some e \<and> e \<in> set savedEntries"
proof -
  from assms obtain e0 :: ClabsiEntry
    where "e0 \<in> set savedEntries" "ClabsiEntry.patient_id e0 = patientId formData"
    by (auto simp add: triple_saved_def list_ex_iff)
  then have "existingPatient savedEntries formData \<noteq> None"
    by (auto simp add: existingPatient_def find_None_iff)
  then obtain e where e: "existingPatient savedEntries formData = Some e" by blast
  then have "e \<in> set savedEntries"
    by (auto simp add: existingPatient_def find_Some_iff)
  with e show ?thesis by blast
qed

lemma select_existing_patient_filled:
  assumes "triple_saved savedEntries formData" and "well_formed_rows savedEntries"
  shows "bundle_required_filled (select_existing_patient savedEntries formData)"
proof -
  from assms(1) obtain e0 :: ClabsiEntry
    where e0: "e0 \<in> set savedEntries" "ClabsiEntry.patient_id e0 = patientId formData"
      "ClabsiEntry.entry_date e0 = entryDate formData"
      "Some (ClabsiEntry.shift e0) = ClabsiFormData.shift formData"
    by (auto simp add: triple_saved_def list_ex_iff)
  from e0(1-3) assms(2) have texts: "patientId formData \<noteq> []" "entryDate formData \<noteq> []"
    by (auto simp add: well_formed_rows_def list_all_iff)
  from triple_saved_shift [OF assms(1)] have "ClabsiFormData.shift formData \<noteq> None"
    by auto
  note own = texts this
  from existingPatient_found [OF assms(1)]
  obtain e where e: "existingPatient savedEntries formData = Some e" "e \<in> set savedEntries"
    by blast
  from e(2) assms(2) have "ClabsiEntry.admission_date e \<noteq> []"
    by (auto simp add: well_formed_rows_def list_all_iff)
  with own e(1) show ?thesis
    by (simp add: bundle_required_filled_def select_existing_patient_def)
qed

lemma settled_form_duplicate:
  assumes "triple_saved savedEntries formData" and "well_formed_rows savedEntries"
  shows "\<exists>sh. ClabsiFormData.shift formData = Some sh
           \<and> ClabsiBundleForm_handleSubmit getTime usr prof userName savedEntries
                (select_existing_patient savedEntries formData)
               = ShowError (''Entry for '' @ shift_text sh
                   @ '' shift on this date already exists.'')"
proof -
  have keep: "ClabsiFormData.shift (select_existing_patient savedEntries formData)
      = ClabsiFormData.shift formData"
    by (simp add: select_existing_patient_def split: option.splits)
  from assms(1) have "triple_saved savedEntries (select_existing_patient savedEntries formData)"
    by (simp only: select_existing_patient_triple)
  from duplicate_message [OF this select_existing_patient_filled [OF assms]] keep
  show ?thesis by simp
qed

text \<open>
  Claim C5. A submission whose triple (patient, entry date, shift) occurs among the
  saved rows is refused with an error message and never reaches the remote insertion,
  whoever submits it; with its required fields filled in, it is refused as a duplicate,
  with the duplicate message for its shift. The form of a saved triple has its required
  fields filled in: the effect that selects the saved patient writes the admission date
  and the admission shift of the saved row into it.
\<close>

theorem duplicate_entry_rejected:
  assumes "triple_saved savedEntries formData"
  shows "(\<exists>msg. ClabsiBundleForm_handleSubmit getTime usr prof userName savedEntries formData
            = ShowError msg)
     \<and> (\<forall>row. ClabsiBundleForm_handleSubmit getTime usr prof userName savedEntries formData
            \<noteq> RemoteInsert row)
     \<and> (bundle_required_filled formData \<longrightarrow>
          (\<exists>sh. ClabsiFormData.shift formData = Some sh
             \<and> ClabsiBundleForm_handleSubmit getTime usr prof userName savedEntries formData
                 = ShowError (''Entry for '' @ shift_text sh
                     @ '' shift on this date already exists.'')))"
proof -
  from triple_saved_shift [OF assms] obtain sh where sh: "ClabsiFormData.shift formData = Some sh"
    by blast
  from entered_shift_iff [OF sh] assms
  have inc: "array_includes (getEnteredShifts savedEntries formData) sh" by simp
  show ?thesis
    using sh inc
    by (cases "admissionShift formData")
       (auto simp add: ClabsiBundleForm_handleSubmit_def bundle_required_filled_def)
qed

text \<open>
  A saved row of patient P1 for the night shift of 2024-01-02 and a form for the same
  triple. The form with its admission date emptied is completed again by the effect
  that selects the saved patient.
\<close>

lemma saved_triple:
  "triple_saved [saved_entry ''2024-01-02'' N] (bundle_form ''2024-01-02'' N)"
  by (simp add: triple_saved_def saved_entry_def bundle_form_def)

lemma emptied_form_settles:
  "select_existing_patient [saved_entry ''2024-01-02'' N]
     ((bundle_form ''2024-01-02'' N)\<lparr>admissionDate := []\<rparr>)
   = bundle_form ''2024-01-02'' N"
  by (simp add: select_existing_patient_def existingPatient_def saved_entry_def
      bundle_form_def)

text \<open>
  A form for a shift of that day that is not saved yet passes the duplicate test and
  reaches the remote insertion.
\<close>

lemma fresh_shift_reaches_insert:
  "\<exists>row. ClabsiBundleForm_handleSubmit getTime_date_only (Some nurse_user)
           (Some nurse_profile) ''N. Nurse'' [saved_entry ''2024-01-02'' N]
           (bundle_form ''2024-01-02'' M)
         = RemoteInsert row"
  by (simp add: ClabsiBundleForm_handleSubmit_def bundle_form_def saved_entry_def
      getEnteredShifts_def array_includes_def)

text \<open>
  The theorem at the form for the saved night shift: it is complete, and it is refused
  as a duplicate of the night shift.
\<close>

theorem duplicate_entry_rejected_witness:
  "triple_saved [saved_entry ''2024-01-02'' N] (bundle_form ''2024-01-02'' N)
   \<and> bundle_required_filled (bundle_form ''2024-01-02'' N)
   \<and> ClabsiBundleForm_handleSubmit getTime_date_only (Some nurse_user) (Some nurse_profile)
        ''N. Nurse'' [saved_entry ''2024-01-02'' N] (bundle_form ''2024-01-02'' N)
       = ShowError ''Entry for N shift on this date already exists.''"
proof -
  let ?F = "bundle_form ''2024-01-02'' N"
  have f: "bundle_required_filled ?F" "ClabsiFormData.shift ?F = Some N"
    by (simp_all add: bundle_required_filled_def bundle_form_def)
  note TF = duplicate_entry_rejected [OF saved_triple, of getTime_date_only
      "Some nurse_user" "Some nurse_profile" "''N. Nurse''"]
  from TF f have rf: "ClabsiBundleForm_handleSubmit getTime_date_only (Some nurse_user)
      (Some nurse_profile) ''N. Nurse'' [saved_entry ''2024-01-02'' N] ?F
       = ShowError ''Entry for N shift on this date already exists.''"
    by auto
  from saved_triple f(1) rf show ?thesis by simp
qed

section \<open>Properties of the age field of the MDRO form\<close>

text \<open>The three constructors of the age schema, composed.\<close>

lemma age_cases:
  "mdrSchema_age toNumber input =
     (case Number_of toNumber (if input = JUndefined then JNumber (Finite 0) else input) of
        NaN \<Rightarrow> Inl invalid_type
      | Finite n \<Rightarrow> if n \<ge> 0 then Inr n else Inl (custom ''Age cannot be negative''))"
  by (simp add: mdrSchema_age_def z_refine_def z_default_def z_coerce_number_def
      split: number.splits)

text \<open>
  Claim C7, as the code has it, for every conversion of texts to numbers. An absent
  value (\<^verbatim>\<open>undefined\<close>) is accepted as 0, and so is the empty text, which the
  language converts to 0. Any other input whose conversion is \<open>NaN\<close> is refused
  with the issue \<open>invalid_type\<close>; an input whose conversion is negative is refused
  with the message of the refinement; an input whose conversion is a number that is not
  negative is accepted as that number, integer or not. Every accepted age is at least 0.
\<close>

theorem mdrSchema_age_behaviour:
  "mdrSchema_age toNumber JUndefined = Inr 0
   \<and> (toNumber [] = Finite 0 \<longrightarrow> mdrSchema_age toNumber (JString []) = Inr 0)
   \<and> (input \<noteq> JUndefined \<and> Number_of toNumber input = NaN \<longrightarrow>
        mdrSchema_age toNumber input = Inl invalid_type)
   \<and> (Number_of toNumber input = Finite n \<and> n < 0 \<longrightarrow>
        mdrSchema_age toNumber input = Inl (custom ''Age cannot be negative''))
   \<and> (input \<noteq> JUndefined \<and> Number_of toNumber input = Finite n \<and> n \<ge> 0 \<longrightarrow>
        mdrSchema_age toNumber input = Inr n)
   \<and> (mdrSchema_age toNumber input = Inr accepted \<longrightarrow> accepted \<ge> 0)"
  by (cases input) (auto simp add: age_cases split: number.splits if_splits)

text \<open>The conversion of five texts.\<close>

lemma decimal_values:
  "StringToNumber_decimal [] = Finite 0"
  "StringToNumber_decimal ''abc'' = NaN"
  "StringToNumber_decimal ''-5'' = Finite (- 5)"
  "StringToNumber_decimal ''2.5'' = Finite (5 / 2)"
  "StringToNumber_decimal ''42'' = Finite 42"
  by code_simp+

text \<open>
  The theorem at the absent value and at the texts \<^verbatim>\<open>''\<close>, \<^verbatim>\<open>'abc'\<close>,
  \<^verbatim>\<open>'-5'\<close> and \<^verbatim>\<open>'42'\<close>.
\<close>

theorem mdrSchema_age_behaviour_witness:
  "mdrSchema_age StringToNumber_decimal JUndefined = Inr 0
   \<and> StringToNumber_decimal [] = Finite 0
   \<and> mdrSchema_age StringToNumber_decimal (JString []) = Inr 0
   \<and> Number_of StringToNumber_decimal (JString ''abc'') = NaN
   \<and> mdrSchema_age StringToNumber_decimal (JString ''abc'') = Inl invalid_type
   \<and> Number_of StringToNumber_decimal (JString ''-5'') = Finite (- 5)
   \<and> mdrSchema_age StringToNumber_decimal (JString ''-5'')
       = Inl (custom ''Age cannot be negative'')
   \<and> Number_of StringToNumber_decimal (JString ''42'') = Finite 42
   \<and> mdrSchema_age StringToNumber_decimal (JString ''42'') = Inr 42"
proof -
  let ?N = StringToNumber_decimal
  note T1 = mdrSchema_age_behaviour [of ?N "JString ''abc''" 0 0]
  note T2 = mdrSchema_age_behaviour [of ?N "JString ''-5''" "- 5" 0]
  note T3 = mdrSchema_age_behaviour [of ?N "JString ''42''" 42 42]
  have n: "Number_of ?N (JString ''abc'') = NaN" "Number_of ?N (JString ''-5'') = Finite (- 5)"
    "Number_of ?N (JString ''42'') = Finite 42"
    by (simp_all add: decimal_values)
  from T1 have u: "mdrSchema_age ?N JUndefined = Inr 0" by blast
  from T1 decimal_values(1) have e: "mdrSchema_age ?N (JString []) = Inr 0" by blast
  from T1 n(1) have a: "mdrSchema_age ?N (JString ''abc'') = Inl invalid_type" by simp
  from T2 n(2) have b: "mdrSchema_age ?N (JString ''-5'') = Inl (custom ''Age cannot be negative'')"
    by simp
  from T3 n(3) have c: "mdrSchema_age ?N (JString ''42'') = Inr 42" by simp
  from u e a b c n decimal_values(1) show ?thesis by simp
qed

text \<open>
  Claim C7 as stated fails: the text \<^verbatim>\<open>'abc'\<close> is refused and does not become 0;
  the text \<^verbatim>\<open>'2.5'\<close> is accepted as 5/2, which is no integer; and the text
  \<^verbatim>\<open>'-5'\<close> is refused and not turned into a number that is not negative.
\<close>

theorem mdrSchema_age_counterexample:
  "mdrSchema_age StringToNumber_decimal (JString ''abc'') = Inl invalid_type
   \<and> mdrSchema_age StringToNumber_decimal (JString ''2.5'') = Inr (5 / 2)
   \<and> (5 / 2 :: rat) \<notin> \<int>
   \<and> mdrSchema_age StringToNumber_decimal (JString ''-5'')
       = Inl (custom ''Age cannot be negative'')"
  by (simp add: age_cases decimal_values)

end
